theory Spec2Isabelle
  imports Complex_Main
begin

section \<open>Gradient-descent template: a shallow embedding of template_1.py\<close>

text \<open>
  The embedding goes function by function through \<^verbatim>\<open>template_1.py\<close>. Python floats and
  numpy's float arrays are modelled over the real numbers (exact arithmetic: no rounding,
  no NaN, no infinities). Every exception the code can raise is a value of \<open>error\<close>, and a
  call that can raise returns \<open>error + 'a\<close> with \<open>Inl\<close> for the exception.
\<close>

subsection \<open>Exceptions\<close>

datatype error =
    TypeError
  | AttributeError
  | ValueError
  | NameError
  | IndexError
  | ZeroDivisionError
  | SyntaxError
  | ValueError_message string

text \<open>
  \<open>ValueError\<close> is the one numpy raises on incompatible shapes (its message is not
  modelled); \<open>ValueError_message\<close> is a \<^verbatim>\<open>ValueError\<close> raised by the code itself,
  with the message it builds.

  Sequencing of two computations: an exception of the first one ends the evaluation.
\<close>

definition bind_result :: "error + 'a \<Rightarrow> ('a \<Rightarrow> error + 'b) \<Rightarrow> error + 'b" where
  "bind_result m f = (case m of Inl e \<Rightarrow> Inl e | Inr v \<Rightarrow> f v)"

subsection \<open>Python float arithmetic used by the schedule\<close>

text \<open>
  The result of \<^verbatim>\<open>a ** b\<close> on floats is a float, except that a negative base with a
  non-integral exponent gives a complex number (of modulus \<open>|a| ** b\<close> and argument
  \<open>pi * b\<close>), and \<^verbatim>\<open>0.0 ** b\<close> with negative \<open>b\<close>
  raises \<^verbatim>\<open>ZeroDivisionError\<close>.
\<close>

datatype pynumber = PyFloat real | PyComplex complex

definition float_div :: "real \<Rightarrow> real \<Rightarrow> error + real" where
  "float_div a b = (if b = 0 then Inl ZeroDivisionError else Inr (a / b))"

definition float_pow :: "real \<Rightarrow> real \<Rightarrow> error + pynumber" where
  "float_pow a b =
     (if 0 < a then Inr (PyFloat (a powr b))
      else if a = 0 then
        (if b < 0 then Inl ZeroDivisionError
         else if b = 0 then Inr (PyFloat 1)
         else Inr (PyFloat 0))
      else if b = of_int \<lfloor>b\<rfloor> then Inr (PyFloat (power_int a \<lfloor>b\<rfloor>))
      else Inr (PyComplex (Complex ((- a) powr b * cos (pi * b)) ((- a) powr b * sin (pi * b)))))"

fun number_mul :: "real \<Rightarrow> pynumber \<Rightarrow> pynumber" where
  "number_mul a (PyFloat b) = PyFloat (a * b)"
| "number_mul a (PyComplex z) = PyComplex (complex_of_real a * z)"

subsection \<open>LearningRate (lines 11-24)\<close>

text \<open>
  The dataclass \<^verbatim>\<open>LearningRate\<close>. The field \<^verbatim>\<open>lambda_\<close> is written \<open>lambda'\<close>
  (a name cannot end in an underscore here). \<^verbatim>\<open>iteration\<close> is a Python int.
\<close>

record LearningRate =
  lambda' :: real
  s0 :: real
  p :: real
  iteration :: int

text \<open>
  \<^verbatim>\<open>__call__\<close>: the counter is incremented first (and stays incremented when the
  formula raises), then the formula is evaluated with the new counter.
\<close>

definition LearningRate_call :: "LearningRate \<Rightarrow> (error + pynumber) \<times> LearningRate" where
  "LearningRate_call self =
     (let self1 = self\<lparr>iteration := iteration self + 1\<rparr> in
        (bind_result (float_div (s0 self1) (s0 self1 + of_int (iteration self1))) (\<lambda>q.
         bind_result (float_pow q (p self1)) (\<lambda>r.
         Inr (number_mul (lambda' self1) r))),
         self1))"

text \<open>
  Successive calls on one schedule object: \<open>LearningRate_after k\<close> is the object after \<open>k\<close>
  calls, and \<open>rate_seq self k\<close> is the value returned by call number \<open>k + 1\<close>.
\<close>

fun LearningRate_after :: "nat \<Rightarrow> LearningRate \<Rightarrow> LearningRate" where
  "LearningRate_after 0 self = self"
| "LearningRate_after (Suc k) self = LearningRate_after k (snd (LearningRate_call self))"

definition rate_seq :: "LearningRate \<Rightarrow> nat \<Rightarrow> error + pynumber" where
  "rate_seq self k = fst (LearningRate_call (LearningRate_after k self))"

subsection \<open>numpy arrays and the numpy functions the code names\<close>

text \<open>
  A float ndarray of at most two dimensions. \<open>Scalar\<close> is a zero-dimensional array (also
  a numpy scalar or a plain Python number); \<open>Arr2 c rows\<close> is the matrix of shape
  \<open>(length rows, c)\<close> whose rows all have length \<open>c\<close>.
\<close>

datatype ndarray = Scalar real | Arr1 "real list" | Arr2 nat "real list list"

fun shape :: "ndarray \<Rightarrow> nat list" where
  "shape (Scalar x) = []"
| "shape (Arr1 xs) = [length xs]"
| "shape (Arr2 c rows) = [length rows, c]"

definition tuple_index :: "'a list \<Rightarrow> nat \<Rightarrow> error + 'a" where
  "tuple_index t i = (if i < length t then Inr (t ! i) else Inl IndexError)"

text \<open>
  Elementwise arithmetic with numpy's broadcasting: two axes are compatible when they are
  equal or one of them is 1, and the axis of length 1 is repeated.
\<close>

definition broadcast_dim :: "nat \<Rightarrow> nat \<Rightarrow> error + nat" where
  "broadcast_dim m n =
     (if m = n then Inr m else if m = 1 then Inr n else if n = 1 then Inr m
      else Inl ValueError)"

definition stretch :: "nat \<Rightarrow> 'a list \<Rightarrow> 'a list" where
  "stretch n xs = (case xs of [x] \<Rightarrow> replicate n x | _ \<Rightarrow> xs)"

definition broadcast2 ::
  "(real \<Rightarrow> real \<Rightarrow> real) \<Rightarrow> nat \<Rightarrow> real list list \<Rightarrow> nat \<Rightarrow> real list list \<Rightarrow> error + ndarray"
where
  "broadcast2 f c1 r1 c2 r2 =
     bind_result (broadcast_dim c1 c2) (\<lambda>c.
     bind_result (broadcast_dim (length r1) (length r2)) (\<lambda>n.
     Inr (Arr2 c (map2 (\<lambda>a b. map2 f (stretch c a) (stretch c b))
                    (stretch n r1) (stretch n r2)))))"

fun arr_binop :: "(real \<Rightarrow> real \<Rightarrow> real) \<Rightarrow> ndarray \<Rightarrow> ndarray \<Rightarrow> error + ndarray" where
  "arr_binop f (Scalar a) (Scalar b) = Inr (Scalar (f a b))"
| "arr_binop f (Scalar a) (Arr1 ys) = Inr (Arr1 (map (f a) ys))"
| "arr_binop f (Scalar a) (Arr2 c rows) = Inr (Arr2 c (map (map (f a)) rows))"
| "arr_binop f (Arr1 xs) (Scalar b) = Inr (Arr1 (map (\<lambda>x. f x b) xs))"
| "arr_binop f (Arr2 c rows) (Scalar b) = Inr (Arr2 c (map (map (\<lambda>x. f x b)) rows))"
| "arr_binop f (Arr1 xs) (Arr1 ys) =
     bind_result (broadcast_dim (length xs) (length ys)) (\<lambda>n.
     Inr (Arr1 (map2 f (stretch n xs) (stretch n ys))))"
| "arr_binop f (Arr1 xs) (Arr2 c rows) = broadcast2 f (length xs) [xs] c rows"
| "arr_binop f (Arr2 c rows) (Arr1 ys) = broadcast2 f c rows (length ys) [ys]"
| "arr_binop f (Arr2 c1 r1) (Arr2 c2 r2) = broadcast2 f c1 r1 c2 r2"

fun arr_map :: "(real \<Rightarrow> real) \<Rightarrow> ndarray \<Rightarrow> ndarray" where
  "arr_map f (Scalar a) = Scalar (f a)"
| "arr_map f (Arr1 xs) = Arr1 (map f xs)"
| "arr_map f (Arr2 c rows) = Arr2 c (map (map f) rows)"

definition dot :: "real list \<Rightarrow> real list \<Rightarrow> real" where
  "dot xs ys = sum_list (map2 (*) xs ys)"

definition column :: "real list list \<Rightarrow> nat \<Rightarrow> real list" where
  "column rows j = map (\<lambda>r. r ! j) rows"

text \<open>
  \<^verbatim>\<open>np.matmul\<close>: the inner dimensions must agree and no operand may be
  zero-dimensional; numpy raises \<^verbatim>\<open>ValueError\<close> otherwise.
\<close>

fun np_matmul :: "ndarray \<Rightarrow> ndarray \<Rightarrow> error + ndarray" where
  "np_matmul (Arr1 xs) (Arr1 ys) =
     (if length xs = length ys then Inr (Scalar (dot xs ys)) else Inl ValueError)"
| "np_matmul (Arr2 c rows) (Arr1 ys) =
     (if c = length ys then Inr (Arr1 (map (\<lambda>r. dot r ys) rows)) else Inl ValueError)"
| "np_matmul (Arr1 xs) (Arr2 c rows) =
     (if length xs = length rows then Inr (Arr1 (map (\<lambda>j. dot xs (column rows j)) [0..<c]))
      else Inl ValueError)"
| "np_matmul (Arr2 c1 r1) (Arr2 c2 r2) =
     (if c1 = length r2
      then Inr (Arr2 c2 (map (\<lambda>r. map (\<lambda>j. dot r (column r2 j)) [0..<c2]) r1))
      else Inl ValueError)"
| "np_matmul (Scalar a) y = Inl ValueError"
| "np_matmul x (Scalar b) = Inl ValueError"

fun np_transpose :: "ndarray \<Rightarrow> ndarray" where
  "np_transpose (Scalar a) = Scalar a"
| "np_transpose (Arr1 xs) = Arr1 xs"
| "np_transpose (Arr2 c rows) = Arr2 (length rows) (map (column rows) [0..<c])"

definition np_zeros_like :: "ndarray \<Rightarrow> ndarray" where
  "np_zeros_like a = arr_map (\<lambda>x. 0) a"

text \<open>
  Attribute lookup in the numpy module, for the names the code uses. numpy exports
  \<^verbatim>\<open>matmul\<close>, \<^verbatim>\<open>transpose\<close> and \<^verbatim>\<open>zeros_like\<close>; it has no
  attribute \<^verbatim>\<open>matmult\<close>, and looking that up raises \<^verbatim>\<open>AttributeError\<close>.
\<close>

datatype np_function = Matmul | Transpose | ZerosLike

definition np_getattr :: "string \<Rightarrow> error + np_function" where
  "np_getattr name =
     (if name = ''matmul'' then Inr Matmul
      else if name = ''transpose'' then Inr Transpose
      else if name = ''zeros_like'' then Inr ZerosLike
      else Inl AttributeError)"

fun np_call :: "np_function \<Rightarrow> ndarray list \<Rightarrow> error + ndarray" where
  "np_call Matmul [a, b] = np_matmul a b"
| "np_call Transpose [a] = Inr (np_transpose a)"
| "np_call ZerosLike [a] = Inr (np_zeros_like a)"
| "np_call f args = Inl TypeError"

subsection \<open>The random module\<close>

text \<open>
  The state of the global generator is the stream of floats in \<open>[0, 1)\<close> that
  \<^verbatim>\<open>random.random()\<close> will return. \<^verbatim>\<open>random.choices(population, k=k)\<close> takes
  \<open>population[floor(random() * n)]\<close> \<open>k\<close> times; on an empty population the first
  indexing raises \<^verbatim>\<open>IndexError\<close>.
\<close>

type_synonym rng = "nat \<Rightarrow> real"

definition random_choices :: "'a list \<Rightarrow> nat \<Rightarrow> rng \<Rightarrow> (error + 'a list) \<times> rng" where
  "random_choices population k g =
     (if k = 0 then (Inr [], g)
      else if population = [] then (Inl IndexError, \<lambda>i. g (i + 1))
      else (Inr (map (\<lambda>i. population ! nat \<lfloor>g i * real (length population)\<rfloor>) [0..<k]),
            \<lambda>i. g (i + k)))"

definition range_list :: "int \<Rightarrow> int list" where
  "range_list n = map int [0..<nat n]"

text \<open>Sequencing of computations that use the generator.\<close>

definition bind_rng ::
  "(rng \<Rightarrow> (error + 'a) \<times> rng) \<Rightarrow> ('a \<Rightarrow> rng \<Rightarrow> (error + 'b) \<times> rng) \<Rightarrow> rng \<Rightarrow> (error + 'b) \<times> rng"
where
  "bind_rng m f g = (case m g of (Inl e, g1) \<Rightarrow> (Inl e, g1) | (Inr v, g1) \<Rightarrow> f v g1)"

definition pure_rng :: "error + 'a \<Rightarrow> rng \<Rightarrow> (error + 'a) \<times> rng" where
  "pure_rng r g = (r, g)"

subsection \<open>Descent instances and Python values\<close>

datatype LossFunction = MSE | MAE | LogCosh | Huber

text \<open>
  The attributes of a descent instance. \<^verbatim>\<open>batch_size\<close> is set by
  \<^verbatim>\<open>StochasticDescent.__init__\<close> and \<^verbatim>\<open>mu\<close> by \<^verbatim>\<open>BaseDescentReg.__init__\<close>;
  only the methods of those classes read them.
\<close>

record descent =
  w :: "real list"
  lr :: LearningRate
  loss_function :: LossFunction
  batch_size :: int
  mu :: real

datatype descent_class =
    BaseDescent
  | VanillaGradientDescent
  | StochasticDescent
  | BaseDescentReg
  | VanillaGradientDescentReg
  | StochasticDescentReg

text \<open>The values that flow through the methods: \<^verbatim>\<open>None\<close>, arrays and numbers, objects.\<close>

datatype pyval =
    PNone
  | PArr ndarray
  | PObj LearningRate
  | PInst descent

text \<open>
  Unary minus and binary arithmetic. \<^verbatim>\<open>None\<close>, a \<^verbatim>\<open>LearningRate\<close> (a dataclass
  without arithmetic methods) and a descent instance support neither:
  \<^verbatim>\<open>TypeError\<close>.
\<close>

fun py_neg :: "pyval \<Rightarrow> error + pyval" where
  "py_neg (PArr a) = Inr (PArr (arr_map uminus a))"
| "py_neg v = Inl TypeError"

fun py_binop :: "(real \<Rightarrow> real \<Rightarrow> real) \<Rightarrow> pyval \<Rightarrow> pyval \<Rightarrow> error + pyval" where
  "py_binop f (PArr a) (PArr b) = bind_result (arr_binop f a b) (\<lambda>r. Inr (PArr r))"
| "py_binop f u v = Inl TypeError"

subsection \<open>BaseDescent (lines 34-89)\<close>

text \<open>\<^verbatim>\<open>update_weights\<close> and \<^verbatim>\<open>calc_gradient\<close>: the body is \<^verbatim>\<open>pass\<close>.\<close>

definition BaseDescent_update_weights :: "descent \<Rightarrow> pyval \<Rightarrow> (error + pyval) \<times> descent" where
  "BaseDescent_update_weights self gradient = (Inr PNone, self)"

definition BaseDescent_calc_gradient ::
  "descent \<Rightarrow> ndarray \<Rightarrow> ndarray \<Rightarrow> rng \<Rightarrow> (error + pyval) \<times> rng" where
  "BaseDescent_calc_gradient self X y g = (Inr PNone, g)"

text \<open>\<^verbatim>\<open>predict\<close>: \<^verbatim>\<open>np.matmul(X, self.w)\<close>.\<close>

definition BaseDescent_predict :: "descent \<Rightarrow> ndarray \<Rightarrow> error + ndarray" where
  "BaseDescent_predict self X =
     bind_result (np_getattr ''matmul'') (\<lambda>f. np_call f [X, Arr1 (w self)])"

text \<open>
  \<^verbatim>\<open>calc_loss\<close>: \<^verbatim>\<open>diff = y - self.predict(X)\<close>, then
  \<^verbatim>\<open>1/(y.shape[0]) * np.matmul(np.transpose(diff), diff)\<close>, the left factor first.
  \<^verbatim>\<open>self.loss_function\<close> is not read.
\<close>

definition BaseDescent_calc_loss :: "descent \<Rightarrow> ndarray \<Rightarrow> ndarray \<Rightarrow> error + ndarray" where
  "BaseDescent_calc_loss self X y =
     bind_result (BaseDescent_predict self X) (\<lambda>pred.
     bind_result (arr_binop (-) y pred) (\<lambda>diff.
     bind_result (tuple_index (shape y) 0) (\<lambda>n.
     bind_result (float_div 1 (real n)) (\<lambda>q.
     bind_result (np_getattr ''matmul'') (\<lambda>f.
     bind_result (np_getattr ''transpose'') (\<lambda>t.
     bind_result (np_call t [diff]) (\<lambda>diffT.
     bind_result (np_call f [diffT, diff]) (\<lambda>m.
     arr_binop (*) (Scalar q) m))))))))"

subsection \<open>VanillaGradientDescent (lines 92-106)\<close>

text \<open>
  \<^verbatim>\<open>update_weights\<close>: \<^verbatim>\<open>return -self.lr * gradient\<close>. The minus is applied to the
  schedule object itself (the schedule is not called), then the product is taken;
  \<^verbatim>\<open>self\<close> is not assigned to.
\<close>

definition VanillaGradientDescent_update_weights ::
  "descent \<Rightarrow> pyval \<Rightarrow> (error + pyval) \<times> descent" where
  "VanillaGradientDescent_update_weights self gradient =
     (bind_result (py_neg (PObj (lr self))) (\<lambda>r. py_binop (*) r gradient), self)"

text \<open>
  \<^verbatim>\<open>calc_gradient\<close>:
  \<^verbatim>\<open>return 2 * np.matmult(np.transpose(X), y - np.matmult(X, self.w))\<close>.
  The callee of a call is looked up before its arguments are evaluated.
\<close>

definition VanillaGradientDescent_calc_gradient ::
  "descent \<Rightarrow> ndarray \<Rightarrow> ndarray \<Rightarrow> rng \<Rightarrow> (error + pyval) \<times> rng" where
  "VanillaGradientDescent_calc_gradient self X y =
     pure_rng
       (bind_result (np_getattr ''matmult'') (\<lambda>f.
        bind_result (np_getattr ''transpose'') (\<lambda>t.
        bind_result (np_call t [X]) (\<lambda>XT.
        bind_result (np_getattr ''matmult'') (\<lambda>h.
        bind_result (np_call h [X, Arr1 (w self)]) (\<lambda>pred.
        bind_result (arr_binop (-) y pred) (\<lambda>residual.
        bind_result (np_call f [XT, residual]) (\<lambda>m.
        bind_result (arr_binop (*) (Scalar 2) m) (\<lambda>r.
        Inr (PArr r))))))))))"

text \<open>
  The same function reached as the class attribute
  \<^verbatim>\<open>VanillaGradientDescent.calc_gradient\<close> and called with a list of positional
  arguments: it has the three parameters \<^verbatim>\<open>self, X, y\<close>, so any other number of
  arguments is a \<^verbatim>\<open>TypeError\<close>. With three arguments that are not an instance and two
  arrays the body still starts with the lookup of \<^verbatim>\<open>np.matmult\<close>, which raises
  \<^verbatim>\<open>AttributeError\<close> before any argument is used.
\<close>

fun VanillaGradientDescent_calc_gradient_args ::
  "pyval list \<Rightarrow> rng \<Rightarrow> (error + pyval) \<times> rng" where
  "VanillaGradientDescent_calc_gradient_args [PInst self, PArr X, PArr y] g =
     VanillaGradientDescent_calc_gradient self X y g"
| "VanillaGradientDescent_calc_gradient_args [a, b, c] g = (Inl AttributeError, g)"
| "VanillaGradientDescent_calc_gradient_args args g = (Inl TypeError, g)"

subsection \<open>StochasticDescent (lines 109-128)\<close>

text \<open>
  The loop \<^verbatim>\<open>for i in range(self.batch_size): grad_sum += VanillaGradientDescent.calc_gradient(X,y)\<close>,
  with the number of iterations still to run.
\<close>

fun grad_sum_loop ::
  "nat \<Rightarrow> ndarray \<Rightarrow> ndarray \<Rightarrow> pyval \<Rightarrow> rng \<Rightarrow> (error + pyval) \<times> rng" where
  "grad_sum_loop 0 X y grad_sum g = (Inr grad_sum, g)"
| "grad_sum_loop (Suc k) X y grad_sum g =
     bind_rng (VanillaGradientDescent_calc_gradient_args [PArr X, PArr y]) (\<lambda>v.
     bind_rng (pure_rng (py_binop (+) grad_sum v)) (\<lambda>s.
     grad_sum_loop k X y s)) g"

text \<open>
  \<^verbatim>\<open>calc_gradient\<close>: \<^verbatim>\<open>rl = random.choices(range(self.batch_size - 1), k=4)\<close>, then
  the loop. The last statement, \<^verbatim>\<open>return 1/self.batch_size *\<close>, is an incomplete
  expression that Python's parser rejects (which also keeps the module from being
  imported as it stands); it is modelled as the error \<open>SyntaxError\<close> at the point where
  the statement would run.
\<close>

definition StochasticDescent_calc_gradient ::
  "descent \<Rightarrow> ndarray \<Rightarrow> ndarray \<Rightarrow> rng \<Rightarrow> (error + pyval) \<times> rng" where
  "StochasticDescent_calc_gradient self X y =
     bind_rng (random_choices (range_list (batch_size self - 1)) 4) (\<lambda>rl.
     bind_rng (grad_sum_loop (nat (batch_size self)) X y (PArr (Scalar 0))) (\<lambda>grad_sum.
     pure_rng (Inl SyntaxError)))"

subsection \<open>BaseDescentReg (lines 132-151)\<close>

text \<open>
  \<^verbatim>\<open>calc_gradient\<close>: \<^verbatim>\<open>l2_gradient = np.zeros_like(X.shape[1])\<close>, then
  \<^verbatim>\<open>return super().calc_gradient(X, y) + l2_gradient * self.mu\<close>. The method that
  \<^verbatim>\<open>super()\<close> resolves to depends on the class of the instance and is the first
  argument.
\<close>

definition BaseDescentReg_calc_gradient ::
  "(descent \<Rightarrow> ndarray \<Rightarrow> ndarray \<Rightarrow> rng \<Rightarrow> (error + pyval) \<times> rng) \<Rightarrow>
   descent \<Rightarrow> ndarray \<Rightarrow> ndarray \<Rightarrow> rng \<Rightarrow> (error + pyval) \<times> rng" where
  "BaseDescentReg_calc_gradient super self X y =
     bind_rng (pure_rng
       (bind_result (np_getattr ''zeros_like'') (\<lambda>f.
        bind_result (tuple_index (shape X) 1) (\<lambda>c.
        np_call f [Scalar (real c)])))) (\<lambda>l2_gradient.
     bind_rng (super self X y) (\<lambda>grad.
     pure_rng
       (bind_result (arr_binop (*) l2_gradient (Scalar (mu self))) (\<lambda>penalty.
        py_binop (+) grad (PArr penalty)))))"

subsection \<open>Method resolution and step\<close>

text \<open>
  The method each class inherits, following the method resolution order:
  \<^verbatim>\<open>VanillaGradientDescentReg(BaseDescentReg, VanillaGradientDescent)\<close> and
  \<^verbatim>\<open>StochasticDescentReg(BaseDescentReg, StochasticDescent)\<close> take
  \<^verbatim>\<open>calc_gradient\<close> from \<^verbatim>\<open>BaseDescentReg\<close>, whose \<^verbatim>\<open>super()\<close> is then the
  second base class; \<^verbatim>\<open>StochasticDescent\<close> inherits \<^verbatim>\<open>update_weights\<close> from
  \<^verbatim>\<open>VanillaGradientDescent\<close>.
\<close>

fun calc_gradient ::
  "descent_class \<Rightarrow> descent \<Rightarrow> ndarray \<Rightarrow> ndarray \<Rightarrow> rng \<Rightarrow> (error + pyval) \<times> rng" where
  "calc_gradient BaseDescent = BaseDescent_calc_gradient"
| "calc_gradient VanillaGradientDescent = VanillaGradientDescent_calc_gradient"
| "calc_gradient StochasticDescent = StochasticDescent_calc_gradient"
| "calc_gradient BaseDescentReg = BaseDescentReg_calc_gradient BaseDescent_calc_gradient"
| "calc_gradient VanillaGradientDescentReg =
     BaseDescentReg_calc_gradient VanillaGradientDescent_calc_gradient"
| "calc_gradient StochasticDescentReg =
     BaseDescentReg_calc_gradient StochasticDescent_calc_gradient"

fun update_weights :: "descent_class \<Rightarrow> descent \<Rightarrow> pyval \<Rightarrow> (error + pyval) \<times> descent" where
  "update_weights BaseDescent = BaseDescent_update_weights"
| "update_weights BaseDescentReg = BaseDescent_update_weights"
| "update_weights cls = VanillaGradientDescent_update_weights"

text \<open>
  \<^verbatim>\<open>BaseDescent.step\<close>: \<^verbatim>\<open>return self.update_weights(self.calc_gradient(X, y))\<close>,
  both calls dispatched on the class of the instance. The result is the returned value
  or exception, the instance afterwards and the generator afterwards.
\<close>

definition BaseDescent_step ::
  "descent_class \<Rightarrow> descent \<Rightarrow> ndarray \<Rightarrow> ndarray \<Rightarrow> rng \<Rightarrow> (error + pyval) \<times> descent \<times> rng"
where
  "BaseDescent_step cls self X y g =
     (case calc_gradient cls self X y g of
        (Inl e, g1) \<Rightarrow> (Inl e, self, g1)
      | (Inr gradient, g1) \<Rightarrow>
          (case update_weights cls self gradient of (r, self1) \<Rightarrow> (r, self1, g1)))"

subsection \<open>get_descent (lines 167-183)\<close>

text \<open>
  The values of a configuration dictionary, with Python's truth value of each.
\<close>

datatype cfgval =
    CStr string
  | CBool bool
  | CNum real
  | CNone
  | CDict "(string \<times> cfgval) list"

fun truthy :: "cfgval \<Rightarrow> bool" where
  "truthy (CStr s) = (s \<noteq> [])"
| "truthy (CBool b) = b"
| "truthy (CNum r) = (r \<noteq> 0)"
| "truthy CNone = False"
| "truthy (CDict kvs) = (kvs \<noteq> [])"

definition dict_get :: "(string \<rightharpoonup> cfgval) \<Rightarrow> string \<Rightarrow> cfgval \<Rightarrow> cfgval" where
  "dict_get d k dflt = (case d k of None \<Rightarrow> dflt | Some v \<Rightarrow> v)"

text \<open>
  The module's global names that the factory reads. The file defines the six descent
  classes; \<^verbatim>\<open>MomentumDescent\<close>, \<^verbatim>\<open>MomentumDescentReg\<close>, \<^verbatim>\<open>Adam\<close> and
  \<^verbatim>\<open>AdamReg\<close> are defined nowhere, and reading an undefined name raises
  \<^verbatim>\<open>NameError\<close>.
\<close>

definition module_global :: "string \<Rightarrow> error + descent_class" where
  "module_global name =
     (if name = ''BaseDescent'' then Inr BaseDescent
      else if name = ''VanillaGradientDescent'' then Inr VanillaGradientDescent
      else if name = ''StochasticDescent'' then Inr StochasticDescent
      else if name = ''BaseDescentReg'' then Inr BaseDescentReg
      else if name = ''VanillaGradientDescentReg'' then Inr VanillaGradientDescentReg
      else if name = ''StochasticDescentReg'' then Inr StochasticDescentReg
      else Inl NameError)"

text \<open>
  \<^verbatim>\<open>descent_name not in descent_mapping\<close> followed by
  \<^verbatim>\<open>descent_mapping[descent_name]\<close>: a string is looked up among the keys, a
  dictionary is unhashable (\<^verbatim>\<open>TypeError\<close>), any other value is no key.
\<close>

fun mapping_lookup :: "(string \<times> 'a) list \<Rightarrow> cfgval \<Rightarrow> error + 'a option" where
  "mapping_lookup m (CStr s) = Inr (map_of m s)"
| "mapping_lookup m (CDict kvs) = Inl TypeError"
| "mapping_lookup m v = Inr None"

text \<open>The text of \<^verbatim>\<open>{descent_mapping.keys()}\<close> in the f-string.\<close>

fun join_quoted :: "string list \<Rightarrow> string" where
  "join_quoted [] = []"
| "join_quoted [k] = [CHR 0x27] @ k @ [CHR 0x27]"
| "join_quoted (k # ks) = [CHR 0x27] @ k @ [CHR 0x27] @ '', '' @ join_quoted ks"

definition dict_keys_text :: "string list \<Rightarrow> string" where
  "dict_keys_text ks = ''dict_keys(['' @ join_quoted ks @ ''])''"

text \<open>\<^verbatim>\<open>**descent_config.get('kwargs', {})\<close> needs a dictionary.\<close>

fun as_kwargs :: "cfgval \<Rightarrow> error + (string \<times> cfgval) list" where
  "as_kwargs (CDict kvs) = Inr kvs"
| "as_kwargs v = Inl TypeError"

text \<open>
  \<^verbatim>\<open>get_descent\<close>. The dictionary display evaluates its four values in order, each a
  conditional expression that reads one of two global names. The construction of the
  instance, \<^verbatim>\<open>descent_class(**kwargs)\<close>, is the parameter \<open>new_instance\<close>.
\<close>

definition get_descent ::
  "(descent_class \<Rightarrow> (string \<times> cfgval) list \<Rightarrow> error + descent) \<Rightarrow>
   (string \<rightharpoonup> cfgval) \<Rightarrow> error + descent_class \<times> descent" where
  "get_descent new_instance descent_config =
     (let descent_name = dict_get descent_config ''descent_name'' (CStr ''full'');
          regularized = dict_get descent_config ''regularized'' (CBool False)
      in
        bind_result (module_global (if \<not> truthy regularized then ''VanillaGradientDescent''
                                    else ''VanillaGradientDescentReg'')) (\<lambda>c_full.
        bind_result (module_global (if \<not> truthy regularized then ''StochasticDescent''
                                    else ''StochasticDescentReg'')) (\<lambda>c_stochastic.
        bind_result (module_global (if \<not> truthy regularized then ''MomentumDescent''
                                    else ''MomentumDescentReg'')) (\<lambda>c_momentum.
        bind_result (module_global (if \<not> truthy regularized then ''Adam''
                                    else ''AdamReg'')) (\<lambda>c_adam.
        let descent_mapping =
              [(''full'', c_full), (''stochastic'', c_stochastic),
               (''momentum'', c_momentum), (''adam'', c_adam)]
        in
          bind_result (mapping_lookup descent_mapping descent_name) (\<lambda>found.
            case found of
              None \<Rightarrow>
                Inl (ValueError_message
                       (''Incorrect descent name, use one of these: '' @
                        dict_keys_text (map fst descent_mapping)))
            | Some descent_class \<Rightarrow>
                bind_result (as_kwargs (dict_get descent_config ''kwargs'' (CDict []))) (\<lambda>kwargs.
                bind_result (new_instance descent_class kwargs) (\<lambda>inst.
                Inr (descent_class, inst)))))))))"

subsection \<open>A generator for worked examples\<close>

text \<open>The generator whose every draw is \<open>u\<close>.\<close>

definition constant_rng :: "real \<Rightarrow> rng" where
  "constant_rng u i = u"

section \<open>Properties\<close>

subsection \<open>Sequencing and lookups in numpy\<close>

lemma np_getattr_matmult: "np_getattr ''matmult'' = Inl AttributeError"
  by (simp add: np_getattr_def)

lemma np_getattr_matmul: "np_getattr ''matmul'' = Inr Matmul"
  by (simp add: np_getattr_def)

lemma np_getattr_transpose: "np_getattr ''transpose'' = Inr Transpose"
  by (simp add: np_getattr_def)

lemma np_getattr_zeros_like: "np_getattr ''zeros_like'' = Inr ZerosLike"
  by (simp add: np_getattr_def)

lemma bind_result_simps:
  "bind_result (Inl e) f = Inl e"
  "bind_result (Inr v) f = f v"
  by (simp_all add: bind_result_def)

subsection \<open>The learning-rate schedule\<close>

lemma LearningRate_after_iteration:
  "LearningRate_after k self = self\<lparr>iteration := iteration self + int k\<rparr>"
proof (induction k arbitrary: self)
  case 0
  show ?case by simp
next
  case (Suc k)
  show ?case
    by (simp add: Suc.IH LearningRate_call_def Let_def add.assoc)
qed

lemma LearningRate_call_value:
  assumes "0 < s0 self" and "0 \<le> iteration self"
  shows "LearningRate_call self =
           (Inr (PyFloat (lambda' self *
                   (s0 self / (s0 self + of_int (iteration self + 1))) powr p self)),
            self\<lparr>iteration := iteration self + 1\<rparr>)"
proof -
  have pos: "0 < s0 self + of_int (iteration self + 1)"
    using assms by simp
  then have quot: "0 < s0 self / (s0 self + of_int (iteration self + 1))"
    using assms(1) by simp
  from pos have nz: "s0 self + (of_int (iteration self) + 1) \<noteq> 0"
    by simp
  from quot have quot': "0 < s0 self / (s0 self + (of_int (iteration self) + 1))"
    by simp
  show ?thesis
    using nz quot'
    by (simp add: LearningRate_call_def Let_def float_div_def float_pow_def bind_result_def)
qed

lemma rate_seq_value:
  assumes "0 < s0 self" and "0 \<le> iteration self"
  shows "rate_seq self k =
           Inr (PyFloat (lambda' self *
                  (s0 self / (s0 self + of_int (iteration self + int k + 1))) powr p self))"
proof -
  let ?t = "LearningRate_after k self"
  have t: "?t = self\<lparr>iteration := iteration self + int k\<rparr>"
    by (rule LearningRate_after_iteration)
  have "0 < s0 ?t" and "0 \<le> iteration ?t"
    using assms by (simp_all add: t)
  from LearningRate_call_value [OF this] show ?thesis
    by (simp add: rate_seq_def t)
qed

lemma schedule_base_decreasing:
  fixes a :: real
  assumes "0 < a" and "0 \<le> i" and "j < k"
  shows "a / (a + of_int (i + int k + 1)) < a / (a + of_int (i + int j + 1))"
proof -
  have "0 < a + of_int (i + int j + 1)"
    using assms by simp
  moreover have "a + of_int (i + int j + 1) < a + of_int (i + int k + 1)"
    using assms by simp
  ultimately show ?thesis
    using assms(1) by (simp add: frac_less2)
qed

text \<open>
  Claim C6 (as amended). For every schedule with \<open>s0 > 0\<close> whose counter is not
  negative, a call returns \<open>lambda_ * (s0 / (s0 + iteration)) ** p\<close> evaluated with the
  counter already incremented, and leaves the counter incremented; started at
  \<open>iteration = 0\<close> the first value is \<open>lambda_ * (s0 / (s0 + 1)) ** p\<close>; when \<open>p > 0\<close>
  and \<open>lambda_ > 0\<close> every later call returns a strictly smaller value than every earlier
  one; when \<open>p = 0\<close> every call returns \<open>lambda_\<close>.
\<close>

theorem LearningRate_schedule:
  assumes "0 < s0 self" and "0 \<le> iteration self"
  shows "LearningRate_call self =
           (Inr (PyFloat (lambda' self *
                   (s0 self / (s0 self + of_int (iteration self + 1))) powr p self)),
            self\<lparr>iteration := iteration self + 1\<rparr>)
         \<and> (iteration self = 0 \<longrightarrow>
              rate_seq self 0 =
                Inr (PyFloat (lambda' self * (s0 self / (s0 self + 1)) powr p self)))
         \<and> (0 < p self \<and> 0 < lambda' self \<longrightarrow>
              (\<forall>j k. j < k \<longrightarrow>
                 (\<exists>a b. rate_seq self j = Inr (PyFloat a) \<and>
                        rate_seq self k = Inr (PyFloat b) \<and> b < a)))
         \<and> (p self = 0 \<longrightarrow> (\<forall>k. rate_seq self k = Inr (PyFloat (lambda' self))))"
proof (intro conjI impI allI)
  show "LearningRate_call self =
           (Inr (PyFloat (lambda' self *
                   (s0 self / (s0 self + of_int (iteration self + 1))) powr p self)),
            self\<lparr>iteration := iteration self + 1\<rparr>)"
    by (rule LearningRate_call_value [OF assms])
next
  assume "iteration self = 0"
  then show "rate_seq self 0 =
                Inr (PyFloat (lambda' self * (s0 self / (s0 self + 1)) powr p self))"
    using rate_seq_value [OF assms, of 0] by simp
next
  fix j k :: nat
  assume pl: "0 < p self \<and> 0 < lambda' self" and jk: "j < k"
  let ?b = "\<lambda>n::nat. s0 self / (s0 self + of_int (iteration self + int n + 1))"
  have lt: "?b k < ?b j"
    by (rule schedule_base_decreasing [OF assms jk])
  have "0 < s0 self + of_int (iteration self + int k + 1)"
    using assms by simp
  then have nonneg: "0 \<le> ?b k"
    using assms(1) by simp
  have "?b k powr p self < ?b j powr p self"
    using pl nonneg lt by (simp add: powr_less_mono2)
  then have "lambda' self * ?b k powr p self < lambda' self * ?b j powr p self"
    using pl by simp
  then show "\<exists>a b. rate_seq self j = Inr (PyFloat a) \<and>
                   rate_seq self k = Inr (PyFloat b) \<and> b < a"
    using rate_seq_value [OF assms, of j] rate_seq_value [OF assms, of k] by simp
next
  fix k :: nat
  assume p0: "p self = 0"
  have "0 < s0 self + of_int (iteration self + int k + 1)"
    using assms by simp
  then have "s0 self / (s0 self + of_int (iteration self + int k + 1)) \<noteq> 0"
    using assms(1) by simp
  then show "rate_seq self k = Inr (PyFloat (lambda' self))"
    using rate_seq_value [OF assms, of k] p0 by simp
qed

text \<open>
  The theorem at two schedules: \<open>lambda_ = 1, s0 = 1, p = 1\<close>, where the first two rates
  are \<open>1/2\<close> and a smaller one, and \<open>lambda_ = 3, s0 = 1, p = 0\<close>, where the sixth rate
  is \<open>3\<close>.
\<close>

theorem LearningRate_schedule_witness:
  "0 < s0 \<lparr>lambda' = 1, s0 = 1, p = 1, iteration = 0\<rparr>
   \<and> 0 \<le> iteration \<lparr>lambda' = 1, s0 = 1, p = 1, iteration = 0\<rparr>
   \<and> LearningRate_call \<lparr>lambda' = 1, s0 = 1, p = 1, iteration = 0\<rparr> =
       (Inr (PyFloat (1 / 2)), \<lparr>lambda' = 1, s0 = 1, p = 1, iteration = 1\<rparr>)
   \<and> rate_seq \<lparr>lambda' = 1, s0 = 1, p = 1, iteration = 0\<rparr> 0 = Inr (PyFloat (1 / 2))
   \<and> (\<exists>a b. rate_seq \<lparr>lambda' = 1, s0 = 1, p = 1, iteration = 0\<rparr> 0 = Inr (PyFloat a)
            \<and> rate_seq \<lparr>lambda' = 1, s0 = 1, p = 1, iteration = 0\<rparr> 1 = Inr (PyFloat b)
            \<and> b < a)
   \<and> rate_seq \<lparr>lambda' = 3, s0 = 1, p = 0, iteration = 0\<rparr> 5 = Inr (PyFloat 3)"
proof -
  let ?S = "\<lparr>lambda' = 1, s0 = 1, p = 1, iteration = 0\<rparr>"
  let ?T = "\<lparr>lambda' = 3, s0 = 1, p = 0, iteration = 0\<rparr>"
  have hS: "0 < s0 ?S" "0 \<le> iteration ?S" and hT: "0 < s0 ?T" "0 \<le> iteration ?T"
    by simp_all
  note S = LearningRate_schedule [OF hS]
  note T = LearningRate_schedule [OF hT]
  from S have call: "LearningRate_call ?S = (Inr (PyFloat (1 / 2)), ?S\<lparr>iteration := 1\<rparr>)"
    by simp
  from S have first: "rate_seq ?S 0 = Inr (PyFloat (1 / 2))"
    by simp
  from S have "\<forall>j k. j < k \<longrightarrow>
      (\<exists>a b. rate_seq ?S j = Inr (PyFloat a) \<and> rate_seq ?S k = Inr (PyFloat b) \<and> b < a)"
    by simp
  then have "(0::nat) < 1 \<longrightarrow>
      (\<exists>a b. rate_seq ?S 0 = Inr (PyFloat a) \<and> rate_seq ?S 1 = Inr (PyFloat b) \<and> b < a)"
    by blast
  then have decreasing:
    "\<exists>a b. rate_seq ?S 0 = Inr (PyFloat a) \<and> rate_seq ?S 1 = Inr (PyFloat b) \<and> b < a"
    by simp
  from T have const_rate: "rate_seq ?T 5 = Inr (PyFloat 3)"
    by simp
  from call first decreasing const_rate show ?thesis
    by simp
qed

text \<open>
  Without the two extra conditions the statement fails. With \<open>lambda_ = 0\<close>, \<open>s0 = 1\<close>
  and \<open>p = 1\<close> the first two rates are both \<open>0\<close>: the sequence is not strictly
  decreasing. With \<open>s0 = 1\<close> and the counter at \<open>-2\<close> the call divides by
  \<open>s0 + iteration = 0\<close> and raises \<^verbatim>\<open>ZeroDivisionError\<close>.
\<close>

theorem LearningRate_schedule_counterexample:
  "0 < s0 \<lparr>lambda' = 0, s0 = 1, p = 1, iteration = 0\<rparr>
   \<and> 0 < p \<lparr>lambda' = 0, s0 = 1, p = 1, iteration = 0\<rparr>
   \<and> rate_seq \<lparr>lambda' = 0, s0 = 1, p = 1, iteration = 0\<rparr> 0 = Inr (PyFloat 0)
   \<and> rate_seq \<lparr>lambda' = 0, s0 = 1, p = 1, iteration = 0\<rparr> 1 = Inr (PyFloat 0)
   \<and> 0 < s0 \<lparr>lambda' = 1, s0 = 1, p = 1, iteration = - 2\<rparr>
   \<and> fst (LearningRate_call \<lparr>lambda' = 1, s0 = 1, p = 1, iteration = - 2\<rparr>) =
       Inl ZeroDivisionError"
  by (simp add: rate_seq_def LearningRate_call_def float_div_def float_pow_def
      bind_result_simps)

subsection \<open>The vanilla rule\<close>

text \<open>
  Claim C1. The claim is that \<^verbatim>\<open>VanillaGradientDescent.calc_gradient(X, y)\<close> returns
  \<open>2 * X\<^sup>T (X w - y)\<close>. The code raises \<^verbatim>\<open>AttributeError\<close> for every instance,
  \<open>X\<close> and \<open>y\<close>: the first thing the return statement does is to look up
  \<^verbatim>\<open>np.matmult\<close>.
\<close>

theorem VanillaGradientDescent_calc_gradient_raises:
  "VanillaGradientDescent_calc_gradient self X y g = (Inl AttributeError, g)"
  by (simp add: VanillaGradientDescent_calc_gradient_def pure_rng_def np_getattr_matmult
      bind_result_simps)

text \<open>
  Claim C2. The claim is that \<^verbatim>\<open>update_weights(g)\<close> draws one rate from the
  schedule, returns \<open>- rate * g\<close> and adds it to \<open>w\<close>, so that \<^verbatim>\<open>step\<close> returns a
  delta of length \<open>d\<close> with \<open>w\<close> moved by it. The code raises \<^verbatim>\<open>TypeError\<close> for
  every gradient (the minus is applied to the schedule object), and \<^verbatim>\<open>step\<close> of
  a vanilla instance raises \<^verbatim>\<open>AttributeError\<close>; in both cases the instance,
  schedule counter and weights included, is as before.
\<close>

theorem VanillaGradientDescent_update_weights_raises:
  "VanillaGradientDescent_update_weights self gradient = (Inl TypeError, self)
   \<and> BaseDescent_step VanillaGradientDescent self X y g = (Inl AttributeError, self, g)"
  by (simp add: VanillaGradientDescent_update_weights_def bind_result_simps
      BaseDescent_step_def VanillaGradientDescent_calc_gradient_def pure_rng_def
      np_getattr_matmult)

subsection \<open>The stochastic rule\<close>

lemma random_choices_empty: "random_choices [] 4 g = (Inl IndexError, \<lambda>i. g (i + 1))"
  by (simp add: random_choices_def)

lemma range_list_empty: "n \<le> 0 \<Longrightarrow> range_list n = []"
  by (simp add: range_list_def)

lemma range_list_nonempty: "0 < n \<Longrightarrow> range_list n \<noteq> []"
  by (simp add: range_list_def)


text \<open>
  Claim C3. The claim is that \<^verbatim>\<open>StochasticDescent.calc_gradient\<close> draws
  \<open>batch_size\<close> row indices from \<open>range(n)\<close> and returns the gradient over those rows
  divided by \<open>batch_size\<close>. The code draws from \<open>range(batch_size - 1)\<close> and never
  returns a gradient: with \<open>batch_size \<le> 1\<close> that range is empty and
  \<^verbatim>\<open>random.choices\<close> raises \<^verbatim>\<open>IndexError\<close> after one draw; otherwise four draws
  are made and the first pass of the loop raises \<^verbatim>\<open>TypeError\<close>, because
  \<^verbatim>\<open>VanillaGradientDescent.calc_gradient\<close> is called with two arguments.
\<close>

theorem StochasticDescent_calc_gradient_raises:
  "StochasticDescent_calc_gradient self X y g =
     (if batch_size self \<le> 1 then (Inl IndexError, \<lambda>i. g (i + 1))
      else (Inl TypeError, \<lambda>i. g (i + 4)))"
proof (cases "batch_size self \<le> 1")
  case True
  then have "range_list (batch_size self - 1) = []"
    by (simp add: range_list_empty)
  then show ?thesis
    using True
    by (simp add: StochasticDescent_calc_gradient_def bind_rng_def random_choices_empty)
next
  case False
  then have ne: "range_list (batch_size self - 1) \<noteq> []"
    by (simp add: range_list_nonempty)
  from False obtain k where k: "nat (batch_size self) = Suc k"
    by (cases "nat (batch_size self)") auto
  show ?thesis
    using False ne
    by (simp add: StochasticDescent_calc_gradient_def bind_rng_def random_choices_def k
        pure_rng_def)
qed

subsection \<open>The regularised rule\<close>


lemma BaseDescentReg_calc_gradient_matrix:
  "BaseDescentReg_calc_gradient super self (Arr2 c rows) y g =
     bind_rng (super self (Arr2 c rows) y)
       (\<lambda>grad. pure_rng (py_binop (+) grad (PArr (Scalar 0)))) g"
  by (simp add: BaseDescentReg_calc_gradient_def np_getattr_zeros_like bind_result_simps
      tuple_index_def np_zeros_like_def bind_rng_def pure_rng_def)

text \<open>
  Claim C4. The claim is that the regularised \<^verbatim>\<open>calc_gradient\<close> returns the wrapped
  gradient plus \<open>mu * 2 * w\<close>. In the code \<^verbatim>\<open>l2_gradient\<close> is
  \<^verbatim>\<open>np.zeros_like(X.shape[1])\<close>, the number 0: for every feature matrix, whatever
  \<open>mu\<close> and \<open>w\<close> are, the method returns what \<^verbatim>\<open>super().calc_gradient\<close> returns
  plus 0 (and its exception when it raises).
\<close>

theorem BaseDescentReg_penalty_is_zero:
  "BaseDescentReg_calc_gradient super self (Arr2 c rows) y g =
     bind_rng (super self (Arr2 c rows) y)
       (\<lambda>grad. pure_rng (py_binop (+) grad (PArr (Scalar 0)))) g"
proof -
  have l2_gradient:
    "bind_result (np_getattr ''zeros_like'') (\<lambda>f.
     bind_result (tuple_index [length rows, c] 1) (\<lambda>n. np_call f [Scalar (real n)])) =
     Inr (Scalar 0)"
    by (simp add: np_getattr_zeros_like bind_result_simps tuple_index_def np_zeros_like_def)
  have penalty: "arr_binop (*) (Scalar 0) (Scalar (mu self)) = Inr (Scalar 0)"
    by simp
  show ?thesis
    unfolding BaseDescentReg_calc_gradient_def shape.simps
    by (simp only: l2_gradient penalty bind_rng_def pure_rng_def bind_result_simps
        prod.case sum.case)
qed

text \<open>
  With an inner rule that returns the gradient \<open>[3]\<close>, \<open>w = [1]\<close> and \<open>mu = 1\<close>, the
  regularised gradient is \<open>[3]\<close>, not \<open>[3 + 1 * 2 * 1]\<close>.
\<close>

lemma BaseDescentReg_calc_gradient_example:
  "BaseDescentReg_calc_gradient (\<lambda>self X y. pure_rng (Inr (PArr (Arr1 [3]))))
     \<lparr>w = [1], lr = \<lparr>lambda' = 1 / 1000, s0 = 1, p = 1 / 2, iteration = 0\<rparr>,
      loss_function = MSE, batch_size = 50, mu = 1\<rparr>
     (Arr2 1 [[1]]) (Arr1 [1]) g
   = (Inr (PArr (Arr1 [3])), g)"
  by (simp add: BaseDescentReg_calc_gradient_matrix bind_rng_def pure_rng_def
      bind_result_simps)







subsection \<open>Loss and prediction\<close>

lemma stretch_same: "length xs = n \<Longrightarrow> stretch n xs = xs"
  by (auto simp: stretch_def split: list.splits)

lemma map2_same: "map2 f xs xs = map (\<lambda>x. f x x) xs"
  by (induction xs) simp_all

lemma dot_self_squares: "dot xs xs = sum_list (map (\<lambda>d. d * d) xs)"
  by (simp add: dot_def map2_same)

lemma BaseDescent_predict_matrix:
  "BaseDescent_predict self (Arr2 c rows) =
     (if c = length (w self) then Inr (Arr1 (map (\<lambda>r. dot r (w self)) rows))
      else Inl ValueError)"
  by (simp add: BaseDescent_predict_def np_getattr_matmul bind_result_simps)

text \<open>
  Claim C7. For a feature matrix with \<open>n > 0\<close> rows and \<open>d\<close> columns, \<open>d\<close> the length of
  \<open>w\<close>, and \<open>n\<close> targets, \<^verbatim>\<open>predict(X)\<close> is the vector of the sums
  \<open>\<Sum>\<^sub>j X\<^sub>i\<^sub>j * w\<^sub>j\<close>, and \<^verbatim>\<open>calc_loss(X, y)\<close> returns \<open>(1/n)\<close> times the sum of
  the squares of the entries of \<open>diff = y - predict(X)\<close>; the value is not negative, and
  it is 0 when the prediction equals \<open>y\<close>. (The code does not read
  \<^verbatim>\<open>loss_function\<close>, so this holds whichever loss is selected.)
\<close>

theorem calc_loss_mse:
  assumes "length rows = length y" and "c = length (w self)" and "y \<noteq> []"
  shows "let pred = map (\<lambda>r. sum_list (map2 (*) r (w self))) rows;
             diff = map2 (-) y pred;
             loss = 1 / real (length y) * sum_list (map (\<lambda>d. d * d) diff)
         in BaseDescent_predict self (Arr2 c rows) = Inr (Arr1 pred)
            \<and> BaseDescent_calc_loss self (Arr2 c rows) (Arr1 y) = Inr (Scalar loss)
            \<and> 0 \<le> loss
            \<and> (pred = y \<longrightarrow> loss = 0)"
proof -
  let ?pred = "map (\<lambda>r. sum_list (map2 (*) r (w self))) rows"
  let ?diff = "map2 (-) y ?pred"
  let ?loss = "1 / real (length y) * sum_list (map (\<lambda>d. d * d) ?diff)"
  have predict: "BaseDescent_predict self (Arr2 c rows) = Inr (Arr1 ?pred)"
    using assms(2) by (simp add: BaseDescent_predict_matrix dot_def)
  have len: "length ?pred = length y"
    using assms(1) by simp
  have sub: "arr_binop (-) (Arr1 y) (Arr1 ?pred) = Inr (Arr1 ?diff)"
    using len by (simp add: broadcast_dim_def bind_result_simps stretch_same)
  have n: "real (length y) \<noteq> 0"
    using assms(3) by simp
  have loss: "BaseDescent_calc_loss self (Arr2 c rows) (Arr1 y) = Inr (Scalar ?loss)"
    using n
    by (simp add: BaseDescent_calc_loss_def predict sub bind_result_simps tuple_index_def
        float_div_def np_getattr_matmul np_getattr_transpose dot_self_squares
        del: arr_binop.simps(6))
  have "0 \<le> sum_list (map (\<lambda>d. d * d) ?diff)"
    by (rule sum_list_nonneg) auto
  then have nonneg: "0 \<le> ?loss"
    by simp
  have "sum_list (map (\<lambda>d. d * d) (map2 (-) y y)) = 0"
    by (induction y) simp_all
  then have zero: "?pred = y \<longrightarrow> ?loss = 0"
    by simp
  show ?thesis
    unfolding Let_def using predict loss nonneg zero by blast
qed

text \<open>
  The theorem at \<open>X = [[1,0],[0,1],[1,1]]\<close> and \<open>y = [1,1,2]\<close>: with \<open>w = [2,1]\<close> the
  prediction is \<open>[2,1,3]\<close>, \<open>diff = [-1,0,-1]\<close> and the loss is \<open>2/3\<close>; with
  \<open>w = [1,1]\<close> the prediction is \<open>y\<close> and the loss is 0.
\<close>

theorem calc_loss_mse_witness:
  "BaseDescent_predict
        \<lparr>w = [2, 1], lr = \<lparr>lambda' = 1 / 10, s0 = 1, p = 1 / 2, iteration = 0\<rparr>,
         loss_function = MSE, batch_size = 50, mu = 0\<rparr>
        (Arr2 2 [[1, 0], [0, 1], [1, 1]]) = Inr (Arr1 [2, 1, 3])
   \<and> BaseDescent_calc_loss
        \<lparr>w = [2, 1], lr = \<lparr>lambda' = 1 / 10, s0 = 1, p = 1 / 2, iteration = 0\<rparr>,
         loss_function = MSE, batch_size = 50, mu = 0\<rparr>
        (Arr2 2 [[1, 0], [0, 1], [1, 1]]) (Arr1 [1, 1, 2]) = Inr (Scalar (2 / 3))
   \<and> BaseDescent_calc_loss
        \<lparr>w = [1, 1], lr = \<lparr>lambda' = 1 / 10, s0 = 1, p = 1 / 2, iteration = 0\<rparr>,
         loss_function = MSE, batch_size = 50, mu = 0\<rparr>
        (Arr2 2 [[1, 0], [0, 1], [1, 1]]) (Arr1 [1, 1, 2]) = Inr (Scalar 0)"
  using calc_loss_mse [where rows = "[[1, 0], [0, 1], [1, 1]]" and y = "[1, 1, 2]" and c = 2
      and self = "\<lparr>w = [2, 1], lr = \<lparr>lambda' = 1 / 10, s0 = 1, p = 1 / 2, iteration = 0\<rparr>,
                   loss_function = MSE, batch_size = 50, mu = 0\<rparr>"]
    calc_loss_mse [where rows = "[[1, 0], [0, 1], [1, 1]]" and y = "[1, 1, 2]" and c = 2
      and self = "\<lparr>w = [1, 1], lr = \<lparr>lambda' = 1 / 10, s0 = 1, p = 1 / 2, iteration = 0\<rparr>,
                   loss_function = MSE, batch_size = 50, mu = 0\<rparr>"]
  by (simp add: Let_def)

subsection \<open>Shapes that do not match\<close>

lemma update_weights_keeps_self: "snd (update_weights cls self gradient) = self"
  by (cases cls)
    (simp_all add: BaseDescent_update_weights_def VanillaGradientDescent_update_weights_def)

lemma BaseDescent_step_keeps_self: "fst (snd (BaseDescent_step cls self X y g)) = self"
proof (cases "calc_gradient cls self X y g")
  case (Pair r g1)
  show ?thesis
  proof (cases r)
    case (Inl e)
    with Pair show ?thesis by (simp add: BaseDescent_step_def)
  next
    case (Inr gradient)
    with Pair show ?thesis
      using update_weights_keeps_self [of cls self gradient]
      by (cases "update_weights cls self gradient") (simp add: BaseDescent_step_def)
  qed
qed

text \<open>
  Claim C9 (as amended). For every two-dimensional \<open>X\<close> whose number of columns
  differs from the length of \<open>w\<close>, \<^verbatim>\<open>predict(X)\<close> fails with the
  \<^verbatim>\<open>ValueError\<close> that \<^verbatim>\<open>np.matmul\<close> raises, at that call; and a
  \<^verbatim>\<open>step\<close> that fails, on an instance of any class, leaves the instance (its weight
  vector included) unchanged.
\<close>

theorem predict_shape_error_and_failed_step:
  "(c \<noteq> length (w self) \<longrightarrow> BaseDescent_predict self (Arr2 c rows) = Inl ValueError)
   \<and> (fst (BaseDescent_step cls self X y g) = Inl e \<longrightarrow>
        fst (snd (BaseDescent_step cls self X y g)) = self)"
  by (simp add: BaseDescent_predict_matrix BaseDescent_step_keeps_self)


text \<open>
  The theorem at \<open>w = [0,0]\<close> and the one-column matrix \<open>[[1]]\<close>, with a vanilla
  instance for the failing step.
\<close>

theorem predict_shape_error_and_failed_step_witness:
  "1 \<noteq> length (w \<lparr>w = [0, 0], lr = \<lparr>lambda' = 1 / 10, s0 = 1, p = 1 / 2, iteration = 0\<rparr>,
                    loss_function = MSE, batch_size = 50, mu = 0\<rparr>)
   \<and> BaseDescent_predict
        \<lparr>w = [0, 0], lr = \<lparr>lambda' = 1 / 10, s0 = 1, p = 1 / 2, iteration = 0\<rparr>,
         loss_function = MSE, batch_size = 50, mu = 0\<rparr> (Arr2 1 [[1]]) = Inl ValueError
   \<and> fst (BaseDescent_step VanillaGradientDescent
        \<lparr>w = [0, 0], lr = \<lparr>lambda' = 1 / 10, s0 = 1, p = 1 / 2, iteration = 0\<rparr>,
         loss_function = MSE, batch_size = 50, mu = 0\<rparr>
        (Arr2 1 [[1]]) (Arr1 [1, 2]) (constant_rng 0)) = Inl AttributeError
   \<and> fst (snd (BaseDescent_step VanillaGradientDescent
        \<lparr>w = [0, 0], lr = \<lparr>lambda' = 1 / 10, s0 = 1, p = 1 / 2, iteration = 0\<rparr>,
         loss_function = MSE, batch_size = 50, mu = 0\<rparr>
        (Arr2 1 [[1]]) (Arr1 [1, 2]) (constant_rng 0))) =
        \<lparr>w = [0, 0], lr = \<lparr>lambda' = 1 / 10, s0 = 1, p = 1 / 2, iteration = 0\<rparr>,
         loss_function = MSE, batch_size = 50, mu = 0\<rparr>"
  using predict_shape_error_and_failed_step
    [where c = 1 and rows = "[[1]]" and cls = VanillaGradientDescent
       and self = "\<lparr>w = [0, 0], lr = \<lparr>lambda' = 1 / 10, s0 = 1, p = 1 / 2, iteration = 0\<rparr>,
                    loss_function = MSE, batch_size = 50, mu = 0\<rparr>"
       and X = "Arr2 1 [[1]]" and y = "Arr1 [1, 2]" and g = "constant_rng 0"
       and e = AttributeError]
  by (simp add: BaseDescent_step_def VanillaGradientDescent_calc_gradient_def
      pure_rng_def np_getattr_matmult bind_result_simps)

text \<open>
  The statement with both shape conditions and both methods fails: for \<open>w = [0,0]\<close>, the
  one-row matrix \<open>[[1,1]]\<close> and two targets (\<open>X.rows \<noteq> y.length\<close>),
  \<^verbatim>\<open>predict\<close> returns \<open>[0]\<close> and \<^verbatim>\<open>BaseDescent.calc_gradient\<close> returns
  \<^verbatim>\<open>None\<close>; neither raises.
\<close>

theorem dimension_mismatch_counterexample:
  "shape (Arr2 2 [[1, 1]]) = [1, 2]
   \<and> shape (Arr1 [1, 2]) = [2]
   \<and> BaseDescent_predict
        \<lparr>w = [0, 0], lr = \<lparr>lambda' = 1 / 10, s0 = 1, p = 1 / 2, iteration = 0\<rparr>,
         loss_function = MSE, batch_size = 50, mu = 0\<rparr>
        (Arr2 2 [[1, 1]]) = Inr (Arr1 [0])
   \<and> BaseDescent_calc_gradient
        \<lparr>w = [0, 0], lr = \<lparr>lambda' = 1 / 10, s0 = 1, p = 1 / 2, iteration = 0\<rparr>,
         loss_function = MSE, batch_size = 50, mu = 0\<rparr>
        (Arr2 2 [[1, 1]]) (Arr1 [1, 2]) (constant_rng 0) = (Inr PNone, constant_rng 0)"
  by (simp add: BaseDescent_calc_gradient_def BaseDescent_predict_matrix dot_def)

subsection \<open>The abstract methods and the factory\<close>

text \<open>
  Claim C10. On a \<^verbatim>\<open>BaseDescent\<close> instance, \<^verbatim>\<open>calc_gradient\<close>,
  \<^verbatim>\<open>update_weights\<close> and \<^verbatim>\<open>step\<close> return \<^verbatim>\<open>None\<close> for every input,
  raise nothing, and change neither the instance nor the generator.
\<close>

theorem BaseDescent_methods_return_None:
  "BaseDescent_calc_gradient self X y g = (Inr PNone, g)
   \<and> BaseDescent_update_weights self gradient = (Inr PNone, self)
   \<and> BaseDescent_step BaseDescent self X y g = (Inr PNone, self, g)"
  by (simp add: BaseDescent_calc_gradient_def BaseDescent_update_weights_def
      BaseDescent_step_def)

text \<open>
  Claim C8. The claim is that the factory returns an instance of the class named by
  \<^verbatim>\<open>descent_name\<close> and fails, listing the four names, exactly when the name is not
  one of them. The code raises \<^verbatim>\<open>NameError\<close> for every configuration and every
  constructor: building \<^verbatim>\<open>descent_mapping\<close> reads \<^verbatim>\<open>MomentumDescent\<close> or
  \<^verbatim>\<open>MomentumDescentReg\<close>, and the file defines neither.
\<close>

theorem get_descent_raises_NameError:
  "get_descent new_instance descent_config = Inl NameError"
  by (simp add: get_descent_def Let_def module_global_def bind_result_simps)


end
